theory Spec2Isabelle
  imports Main "HOL-Library.Word"
begin

section \<open>Constants of package utils\<close>

text \<open>
  Go's \<open>time.Duration\<close> is a count of nanoseconds held in an \<open>int64\<close>. The constants of
  package \<open>time\<close> are built up exactly as the standard library declares them; constant
  expressions of Go are evaluated exactly, so they are integers here.
\<close>

type_synonym Duration = int

definition Nanosecond :: Duration where
  "Nanosecond = 1"

definition Microsecond :: Duration where
  "Microsecond = 1000 * Nanosecond"

definition Millisecond :: Duration where
  "Millisecond = 1000 * Microsecond"

definition Second :: Duration where
  "Second = 1000 * Millisecond"

definition Minute :: Duration where
  "Minute = 60 * Second"

definition Hour :: Duration where
  "Hour = 60 * Minute"

text \<open>\<^verbatim>\<open>const BaseTTLPeriod = time.Hour * 365 * 10 // 10 years\<close>\<close>

definition BaseTTLPeriod :: Duration where
  "BaseTTLPeriod = Hour * 365 * 10"

text \<open>\<^verbatim>\<open>const MinLength = 3\<close> and \<^verbatim>\<open>const MaxLength = 64\<close>\<close>

definition MinLength :: nat where
  "MinLength = 3"

definition MaxLength :: nat where
  "MaxLength = 64"

section \<open>The process environment and the standard library\<close>

text \<open>
  The environment is a finite table of variables. \<open>os.Getenv\<close> returns the empty string
  for a variable that is not set. The environment given to the functions below is the one
  they see after \<open>utils.LoadEnv()\<close> has run.
\<close>

type_synonym environ = "string \<rightharpoonup> string"

definition Getenv :: "environ \<Rightarrow> string \<Rightarrow> string" where
  "Getenv env k = (case env k of None \<Rightarrow> [] | Some v \<Rightarrow> v)"

text \<open>
  \<open>strings.ToLower\<close> on bytes: an ASCII capital letter goes to its small letter, every
  other byte stays. The source only compares the result with \<open>"true"\<close>, and no rune
  outside ASCII has one of the letters t, r, u, e as its lower case, so the comparison
  has the same outcome as with Go's Unicode mapping.
\<close>

definition toLowerByte :: "char \<Rightarrow> char" where
  "toLowerByte c =
     (let n = (of_char c :: nat) in if 65 \<le> n \<and> n \<le> 90 then char_of (n + 32) else c)"

definition ToLower :: "string \<Rightarrow> string" where
  "ToLower s = map toLowerByte s"

text \<open>
  Go's \<open>int\<close> on a 64-bit platform: a 64-bit word, read as a signed number by \<open>sint\<close>,
  whose addition wraps around.
\<close>

type_synonym go_int = "64 word"

text \<open>
  \<open>strconv.Atoi\<close>, after the standard library (\<open>ParseInt(s, 10, 0)\<close>): an optional sign,
  then one or more decimal digits. On a syntax error the value returned is 0; on a
  number that an \<open>int\<close> cannot hold the value returned is the largest \<open>int\<close> of that sign,
  with a range error.
\<close>

datatype NumError = ErrSyntax | ErrRange

definition isDigit :: "char \<Rightarrow> bool" where
  "isDigit c = (48 \<le> (of_char c :: nat) \<and> (of_char c :: nat) \<le> 57)"

fun ParseUint :: "int \<Rightarrow> string \<Rightarrow> int" where
  "ParseUint n [] = n"
| "ParseUint n (c # cs) = ParseUint (n * 10 + ((of_char c :: int) - 48)) cs"

definition dropSign :: "string \<Rightarrow> string" where
  "dropSign s =
     (case s of
        [] \<Rightarrow> []
      | c # r \<Rightarrow> if c = CHR ''+'' \<or> c = CHR ''-'' then r else s)"

definition isNeg :: "string \<Rightarrow> bool" where
  "isNeg s = (case s of [] \<Rightarrow> False | c # r \<Rightarrow> c = CHR ''-'')"

definition Atoi :: "string \<Rightarrow> go_int \<times> NumError option" where
  "Atoi s =
     (let ds = dropSign s; neg = isNeg s in
      if ds = [] \<or> \<not> list_all isDigit ds then (0, Some ErrSyntax)
      else
        let un = ParseUint 0 ds; cutoff = (2 :: int) ^ 63 in
        if \<not> neg \<and> cutoff \<le> un then (word_of_int (cutoff - 1), Some ErrRange)
        else if neg \<and> cutoff < un then (word_of_int (- cutoff), Some ErrRange)
        else (word_of_int (if neg then - un else un), None))"

text \<open>
  The strings that \<open>Atoi\<close> reads as a decimal integer: an optional sign, then one or more
  decimal digits.
\<close>

definition decimal_integer :: "string \<Rightarrow> bool" where
  "decimal_integer s = (dropSign s \<noteq> [] \<and> list_all isDigit (dropSign s))"

section \<open>Package main: the clients and \<open>init\<close>\<close>

text \<open>
  A \<open>*redis.Client\<close> is modelled by the \<open>redis.Options\<close> it was created from; a field the
  source does not set has Go's zero value. A nil pointer is \<open>None\<close>.
\<close>

record Options =
  Addr :: string
  Username :: string
  Password :: string
  DB :: go_int

definition NewClient :: "Options \<Rightarrow> Options option" where
  "NewClient opt = Some opt"

datatype GinMode = DebugMode | ReleaseMode

text \<open>
  The package variables of \<open>main\<close> that \<open>init\<close> writes, the mode of gin, and the lines
  written through package \<open>log\<close>.
\<close>

record globals =
  Client :: "Options option"
  RateLimitClient :: "Options option"
  DbNum :: go_int
  Shard :: string
  ginMode :: "GinMode option"
  logged :: "string list"

definition initial_globals :: globals where
  "initial_globals =
     \<lparr>Client = None, RateLimitClient = None, DbNum = 0, Shard = [],
      ginMode = None, logged = []\<rparr>"

text \<open>\<open>log.Fatalf\<close> ends the process; it is the only failure of start-up in this file.\<close>

datatype fatal = Fatal string

text \<open>
  \<open>setupMockRedis\<close>. The outcome of \<open>miniredis.Run()\<close> is given from outside: \<open>Inl\<close> the
  text of its error, \<open>Inr\<close> the address of the server it started.
\<close>

definition setupMockRedis :: "string + string \<Rightarrow> globals \<Rightarrow> fatal + globals" where
  "setupMockRedis mr g =
     (case mr of
        Inl err \<Rightarrow> Inl (Fatal (''Failed to start miniredis: '' @ err))
      | Inr addr \<Rightarrow>
          Inr (g\<lparr>logged := logged g @ [''Using miniredis for testing''],
                 Client := NewClient \<lparr>Addr = addr, Username = [], Password = [], DB = 0\<rparr>,
                 RateLimitClient :=
                   NewClient \<lparr>Addr = addr, Username = [], Password = [], DB = 0\<rparr>\<rparr>))"

text \<open>
  \<open>init\<close>. Besides the environment it takes the outcome of \<open>miniredis.Run()\<close> and the
  name that \<open>namegen.New().Get()\<close> draws.
\<close>

definition init :: "environ \<Rightarrow> string + string \<Rightarrow> string \<Rightarrow> globals \<Rightarrow> fatal + globals" where
  "init env mr name g =
     (if ToLower (Getenv env ''TESTING'') = ''true'' then setupMockRedis mr g
      else
        let g1 = g\<lparr>Shard := name\<rparr>;
            g2 = g1\<lparr>ginMode :=
                      Some (if ToLower (Getenv env ''DEBUG'') = ''true''
                            then DebugMode else ReleaseMode)\<rparr>;
            ADDR = Getenv env ''REDIS_HOST'' @ '':'' @ Getenv env ''REDIS_PORT'';
            g3 = g2\<lparr>logged := logged g2 @ [''Listening to redis on: '' @ ADDR]\<rparr>;
            g4 = g3\<lparr>DbNum := fst (Atoi (Getenv env ''REDIS_DB''))\<rparr>;
            g5 = g4\<lparr>Client :=
                      NewClient \<lparr>Addr = ADDR, Username = Getenv env ''REDIS_USERNAME'',
                                 Password = Getenv env ''REDIS_PASSWORD'', DB = DbNum g4\<rparr>\<rparr>
        in Inr (g5\<lparr>RateLimitClient :=
                      NewClient \<lparr>Addr = ADDR, Username = Getenv env ''REDIS_USERNAME'',
                                 Password = Getenv env ''REDIS_PASSWORD'',
                                 DB = DbNum g5 + 1\<rparr>\<rparr>))"

section \<open>The router\<close>

text \<open>
  The handlers that \<open>CreateRouter\<close> installs, by name. Those of gin, cors, analytics and
  package \<open>middleware\<close>, and the views, are defined outside this file; \<open>NoRouteFunc\<close>,
  \<open>HealthcheckFunc\<close> and \<open>DocsFunc\<close> are the three function literals of \<open>CreateRouter\<close>.
\<close>

record CorsConfig =
  AllowMethods :: "string list"
  AllowHeaders :: "string list"
  AllowCredentials :: bool
  AllowAllOrigins :: bool
  MaxAge :: Duration

datatype HandlerFunc =
    Logger
  | Recovery
  | CorsNew CorsConfig
  | Analytics string
  | Stats
  | RateLimit "Options option"
  | SSEMiddleware
  | Auth "Options option"
  | NoRouteFunc
  | StaticFileFunc string
  | HealthcheckFunc
  | DocsFunc
  | StatsView
  | GetView
  | HitView
  | StreamValueView
  | CreateView
  | CreateRandomView
  | InfoView
  | DeleteView
  | SetView
  | ResetView
  | UpdateByView

record Route =
  Method :: string
  Path :: string
  Chain :: "HandlerFunc list"

record RouterGroup =
  Handlers :: "HandlerFunc list"

text \<open>
  A \<open>gin.Engine\<close> embeds its root \<open>RouterGroup\<close>. Every group of \<open>CreateRouter\<close> is made by
  \<open>Group("")\<close>, so each has the base path \<open>/\<close> and a route's path is the one written at
  its registration.
\<close>

record Engine =
  root :: RouterGroup
  RedirectTrailingSlash :: bool
  noRoute :: "HandlerFunc list"
  allNoRoute :: "HandlerFunc list"
  trees :: "Route list"

text \<open>
  \<open>gin.New\<close> turns \<open>RedirectTrailingSlash\<close> on. Its other switches for requests without a
  route, \<open>RedirectFixedPath\<close> and \<open>HandleMethodNotAllowed\<close>, are off, and \<open>CreateRouter\<close>
  changes none of the three.
\<close>

definition New :: Engine where
  "New = \<lparr>root = \<lparr>Handlers = []\<rparr>, RedirectTrailingSlash = True, noRoute = [],
          allNoRoute = [], trees = []\<rparr>"

text \<open>\<open>group.Use\<close> appends to the handlers of the group.\<close>

definition group_Use :: "RouterGroup \<Rightarrow> HandlerFunc list \<Rightarrow> RouterGroup" where
  "group_Use grp mw = grp\<lparr>Handlers := Handlers grp @ mw\<rparr>"

text \<open>\<open>engine.Use\<close> does the same on the root group and rebuilds the chain for no route.\<close>

definition engine_Use :: "Engine \<Rightarrow> HandlerFunc list \<Rightarrow> Engine" where
  "engine_Use e mw =
     (let e1 = e\<lparr>root := group_Use (root e) mw\<rparr>
      in e1\<lparr>allNoRoute := Handlers (root e1) @ noRoute e1\<rparr>)"

definition Default :: Engine where
  "Default = engine_Use New [Logger, Recovery]"

text \<open>\<open>engine.NoRoute\<close> sets the handlers for no route and rebuilds their chain.\<close>

definition NoRoute :: "HandlerFunc list \<Rightarrow> Engine \<Rightarrow> Engine" where
  "NoRoute hs e = e\<lparr>noRoute := hs, allNoRoute := Handlers (root e) @ hs\<rparr>"

text \<open>\<open>group.Group("")\<close>: a new group that starts with a copy of the parent's handlers.\<close>

definition Group :: "RouterGroup \<Rightarrow> RouterGroup" where
  "Group grp = \<lparr>Handlers = Handlers grp\<rparr>"

text \<open>
  \<open>group.Handle\<close>: the route gets the handlers the group has at this moment, followed by
  the ones given.
\<close>

definition handle :: "RouterGroup \<Rightarrow> string \<Rightarrow> string \<Rightarrow> HandlerFunc list \<Rightarrow> Engine \<Rightarrow> Engine" where
  "handle grp m p hs e = e\<lparr>trees := trees e @ [\<lparr>Method = m, Path = p, Chain = Handlers grp @ hs\<rparr>]\<rparr>"

definition GET :: "RouterGroup \<Rightarrow> string \<Rightarrow> HandlerFunc list \<Rightarrow> Engine \<Rightarrow> Engine" where
  "GET grp p hs e = handle grp ''GET'' p hs e"

definition POST :: "RouterGroup \<Rightarrow> string \<Rightarrow> HandlerFunc list \<Rightarrow> Engine \<Rightarrow> Engine" where
  "POST grp p hs e = handle grp ''POST'' p hs e"

definition HEAD :: "RouterGroup \<Rightarrow> string \<Rightarrow> HandlerFunc list \<Rightarrow> Engine \<Rightarrow> Engine" where
  "HEAD grp p hs e = handle grp ''HEAD'' p hs e"

text \<open>\<open>group.StaticFile\<close> registers the file under GET and under HEAD.\<close>

definition StaticFile :: "RouterGroup \<Rightarrow> string \<Rightarrow> string \<Rightarrow> Engine \<Rightarrow> Engine" where
  "StaticFile grp p file e = HEAD grp p [StaticFileFunc file] (GET grp p [StaticFileFunc file] e)"

definition DocsUrl :: string where
  "DocsUrl = ''http://localhost:8080/abacus/''"

definition Version :: string where
  "Version = ''1.3.3''"

definition corsConfig :: CorsConfig where
  "corsConfig =
     \<lparr>AllowMethods = [''GET'', ''POST'', ''PUT'', ''PATCH'', ''DELETE'', ''HEAD'', ''OPTIONS''],
      AllowHeaders = [''Origin'', ''Content-Length'', ''Content-Type'', ''Authorization''],
      AllowCredentials = False,
      AllowAllOrigins = True,
      MaxAge = 12 * Hour\<rparr>"

text \<open>
  \<open>CreateRouter\<close>, in three parts named after its local variables. First the engine \<open>r\<close>
  with its middleware (up to the analytics toggle), then the group \<open>route\<close> and the group
  \<open>authorized\<close>, then the whole function with the registrations in the order of the
  source. The environment is read here, while the router is built, and nowhere else. The
  call of \<open>utils.InitializeStatsManager\<close> and the two log lines do not touch the engine.
\<close>

definition engine_middleware :: "environ \<Rightarrow> Engine" where
  "engine_middleware env =
     (let r = Default;
          r = engine_Use r [CorsNew corsConfig];
          r = engine_Use r [Recovery]
      in if Getenv env ''API_ANALYTICS_ENABLED'' = ''true''
         then engine_Use r [Analytics (Getenv env ''API_ANALYTICS_KEY'')]
         else r)"

definition route_group :: "environ \<Rightarrow> globals \<Rightarrow> RouterGroup" where
  "route_group env g =
     (let route = Group (root (engine_middleware env));
          route = group_Use route [Stats]
      in if Getenv env ''RATE_LIMIT_ENABLED'' = ''true''
         then group_Use route [RateLimit (RateLimitClient g)]
         else route)"

definition authorized_group :: "environ \<Rightarrow> globals \<Rightarrow> RouterGroup" where
  "authorized_group env g = group_Use (Group (route_group env g)) [Auth (Client g)]"

definition CreateRouter :: "environ \<Rightarrow> globals \<Rightarrow> Engine" where
  "CreateRouter env g =
     (let r = engine_middleware env;
          route = route_group env g;
          r = NoRoute [NoRouteFunc] r;
          r = StaticFile (root r) ''/favicon.svg'' ''./assets/favicon.svg'' r;
          r = StaticFile (root r) ''/favicon.ico'' ''./assets/favicon.ico'' r;
          r = GET route ''/healthcheck'' [HealthcheckFunc] r;
          r = GET route ''/docs'' [DocsFunc] r;
          r = GET route ''/stats'' [StatsView] r;
          r = GET route ''/get/:namespace/*key'' [GetView] r;
          r = GET route ''/hit/:namespace/*key'' [HitView] r;
          r = GET route ''/stream/:namespace/*key'' [SSEMiddleware, StreamValueView] r;
          r = POST route ''/create/:namespace/*key'' [CreateView] r;
          r = GET route ''/create/:namespace/*key'' [CreateView] r;
          r = GET route ''/create/'' [CreateRandomView] r;
          r = POST route ''/create/'' [CreateRandomView] r;
          r = GET route ''/info/:namespace/*key'' [InfoView] r;
          authorized = authorized_group env g;
          r = POST authorized ''/delete/:namespace/*key'' [DeleteView] r;
          r = POST authorized ''/set/:namespace/*key'' [SetView] r;
          r = POST authorized ''/reset/:namespace/*key'' [ResetView] r;
          r = POST authorized ''/update/:namespace/*key'' [UpdateByView] r
      in r)"

section \<open>Serving a request\<close>

text \<open>
  A request is its method, its host, the path of its URL and its headers (under their
  canonical names); it has no query string.
\<close>

record Request =
  reqMethod :: string
  reqHost :: string
  reqPath :: string
  reqHeader :: "(string \<times> string) list"

record Response =
  status :: nat
  location :: "string option"

definition StatusOK :: nat where
  "StatusOK = 200"

definition StatusNoContent :: nat where
  "StatusNoContent = 204"

definition StatusMovedPermanently :: nat where
  "StatusMovedPermanently = 301"

definition StatusTemporaryRedirect :: nat where
  "StatusTemporaryRedirect = 307"

definition StatusPermanentRedirect :: nat where
  "StatusPermanentRedirect = 308"

definition StatusForbidden :: nat where
  "StatusForbidden = 403"

definition StatusNotFound :: nat where
  "StatusNotFound = 404"

text \<open>\<open>c.Redirect(code, url)\<close> writes the status and the Location header.\<close>

definition Redirect :: "nat \<Rightarrow> string \<Rightarrow> Response" where
  "Redirect code url = \<lparr>status = code, location = Some url\<rparr>"

text \<open>
  What one handler does with a request: it hands the request on and writes nothing
  (\<open>Next\<close>), it writes a response and the chain goes on (\<open>Write\<close>), or it writes a response
  and aborts the chain (\<open>AbortWith\<close>). The three function literals of \<open>CreateRouter\<close> are
  given by their bodies; none of them aborts. Every other handler is defined outside this
  file and its behaviour is the parameter \<open>ext\<close>.
\<close>

datatype outcome = Next | Write Response | AbortWith Response

fun behaviour :: "(HandlerFunc \<Rightarrow> Request \<Rightarrow> outcome) \<Rightarrow> HandlerFunc \<Rightarrow> Request \<Rightarrow> outcome" where
  "behaviour ext NoRouteFunc req = Write (Redirect StatusPermanentRedirect DocsUrl)"
| "behaviour ext DocsFunc req = Write (Redirect StatusPermanentRedirect DocsUrl)"
| "behaviour ext HealthcheckFunc req = Write \<lparr>status = StatusOK, location = None\<rparr>"
| "behaviour ext h req = ext h req"

text \<open>
  Running a chain, as \<open>c.Next()\<close> does: the handlers run in order until one aborts.
  \<open>invoked\<close> lists the handlers that run; \<open>written\<close> is the response on the wire, the
  first one written, if any.
\<close>

fun invoked :: "(HandlerFunc \<Rightarrow> Request \<Rightarrow> outcome) \<Rightarrow> HandlerFunc list \<Rightarrow> Request \<Rightarrow> HandlerFunc list" where
  "invoked ext [] req = []"
| "invoked ext (h # hs) req =
     h # (case behaviour ext h req of AbortWith r \<Rightarrow> [] | _ \<Rightarrow> invoked ext hs req)"

fun written :: "(HandlerFunc \<Rightarrow> Request \<Rightarrow> outcome) \<Rightarrow> HandlerFunc list \<Rightarrow> Request \<Rightarrow> Response option" where
  "written ext [] req = None"
| "written ext (h # hs) req =
     (case behaviour ext h req of
        Next \<Rightarrow> written ext hs req
      | Write r \<Rightarrow> Some r
      | AbortWith r \<Rightarrow> Some r)"

text \<open>
  The lookup in gin's route tree of the request's method. Whether a registered path fits
  a path is the parameter \<open>matches\<close>. The lookup returns the route found, if any, and the
  recommendation \<open>tsr\<close> to redirect: the path itself has no route, but the path with a
  slash added at its end, or with the slash at its end taken away, has one.
\<close>

record nodeValue =
  found :: "Route option"
  tsr :: bool

definition toggleSlash :: "string \<Rightarrow> string" where
  "toggleSlash p = (if 1 < length p \<and> last p = CHR ''/'' then butlast p else p @ ''/'')"

definition getValue :: "(string \<Rightarrow> string \<Rightarrow> bool) \<Rightarrow> Engine \<Rightarrow> Request \<Rightarrow> nodeValue" where
  "getValue matches e req =
     (let tree = filter (\<lambda>rt. Method rt = reqMethod req) (trees e) in
      \<lparr>found = find (\<lambda>rt. matches (Path rt) (reqPath req)) tree,
       tsr = list_ex (\<lambda>rt. matches (Path rt) (toggleSlash (reqPath req))) tree\<rparr>)"

text \<open>
  gin's \<open>redirectTrailingSlash\<close>, for a request without the header \<open>X-Forwarded-Prefix\<close>:
  the redirect goes to the path with the slash at its end added or taken away, with the
  status 301 for GET and 307 for every other method. No handler runs.
\<close>

definition redirectTrailingSlash :: "Request \<Rightarrow> Response" where
  "redirectTrailingSlash req =
     Redirect (if reqMethod req = ''GET'' then StatusMovedPermanently
               else StatusTemporaryRedirect)
       (toggleSlash (reqPath req))"

text \<open>
  Whether the engine answers a request by that redirect: no route is found, the method
  is not CONNECT, the path is not \<open>/\<close>, the lookup recommends the redirect and the engine
  has \<open>RedirectTrailingSlash\<close> on.
\<close>

definition redirectsTrailingSlash :: "(string \<Rightarrow> string \<Rightarrow> bool) \<Rightarrow> Engine \<Rightarrow> Request \<Rightarrow> bool" where
  "redirectsTrailingSlash matches e req =
     (found (getValue matches e req) = None \<and> reqMethod req \<noteq> ''CONNECT''
      \<and> reqPath req \<noteq> ''/'' \<and> tsr (getValue matches e req) \<and> RedirectTrailingSlash e)"

text \<open>
  The engine's dispatch, gin's \<open>handleHTTPRequest\<close>. A request that finds a route runs
  the chain of the route. One that finds none is redirected for its trailing slash when
  that applies; otherwise it runs the chain for no route, and gets gin's plain 404 when
  that chain writes nothing.
\<close>

definition handleHTTPRequest ::
  "(string \<Rightarrow> string \<Rightarrow> bool) \<Rightarrow> (HandlerFunc \<Rightarrow> Request \<Rightarrow> outcome) \<Rightarrow> Engine \<Rightarrow> Request \<Rightarrow> Response" where
  "handleHTTPRequest matches ext e req =
     (case found (getValue matches e req) of
        Some rt \<Rightarrow>
          (case written ext (Chain rt) req of
             None \<Rightarrow> \<lparr>status = StatusOK, location = None\<rparr>
           | Some r \<Rightarrow> r)
      | None \<Rightarrow>
          if redirectsTrailingSlash matches e req then redirectTrailingSlash req
          else
            (case written ext (allNoRoute e) req of
               None \<Rightarrow> \<lparr>status = StatusNotFound, location = None\<rparr>
             | Some r \<Rightarrow> r))"

text \<open>The handlers that run while the engine serves a request.\<close>

definition handlersInvoked ::
  "(string \<Rightarrow> string \<Rightarrow> bool) \<Rightarrow> (HandlerFunc \<Rightarrow> Request \<Rightarrow> outcome) \<Rightarrow> Engine \<Rightarrow> Request \<Rightarrow> HandlerFunc list" where
  "handlersInvoked matches ext e req =
     (case found (getValue matches e req) of
        Some rt \<Rightarrow> invoked ext (Chain rt) req
      | None \<Rightarrow>
          if redirectsTrailingSlash matches e req then []
          else invoked ext (allNoRoute e) req)"

text \<open>
  A matching of paths in the manner of gin, for the shapes of path registered here: the
  path is cut at every \<open>/\<close>; a segment \<open>:name\<close> fits one segment, which may be empty, a
  segment \<open>*name\<close> fits all that remains, any other segment fits itself.
\<close>

fun splitPath :: "string \<Rightarrow> string \<Rightarrow> string list" where
  "splitPath acc [] = [rev acc]"
| "splitPath acc (c # cs) =
     (if c = CHR ''/'' then rev acc # splitPath [] cs else splitPath (c # acc) cs)"

fun matchSegments :: "string list \<Rightarrow> string list \<Rightarrow> bool" where
  "matchSegments [] [] = True"
| "matchSegments [] (s # ss) = False"
| "matchSegments (p # ps) [] = False"
| "matchSegments (p # ps) (s # ss) =
     (case p of
        [] \<Rightarrow> s = [] \<and> matchSegments ps ss
      | c # n \<Rightarrow>
          if c = CHR ''*'' then True
          else if c = CHR '':'' then matchSegments ps ss
          else p = s \<and> matchSegments ps ss)"

definition matchPath :: "string \<Rightarrow> string \<Rightarrow> bool" where
  "matchPath pattern p = matchSegments (splitPath [] pattern) (splitPath [] p)"

text \<open>
  The cors middleware on a request, after \<open>applyCors\<close> of gin-contrib/cors, with a
  configuration that lists no origins (as \<open>corsConfig\<close>): a request without an Origin
  header, or from the host's own origin, is handed on; an origin that is not allowed is
  answered 403; a preflight, which is an OPTIONS request, is answered 204 and aborted;
  every other request is handed on.
\<close>

definition applyCors :: "CorsConfig \<Rightarrow> Request \<Rightarrow> outcome" where
  "applyCors cfg req =
     (case map_of (reqHeader req) ''Origin'' of
        None \<Rightarrow> Next
      | Some origin \<Rightarrow>
          if origin = [] then Next
          else if origin = ''http://'' @ reqHost req \<or> origin = ''https://'' @ reqHost req
          then Next
          else if \<not> AllowAllOrigins cfg
          then AbortWith \<lparr>status = StatusForbidden, location = None\<rparr>
          else if reqMethod req = ''OPTIONS''
          then AbortWith \<lparr>status = StatusNoContent, location = None\<rparr>
          else Next)"

text \<open>
  Outside handlers of which cors behaves as above and every other one hands the request
  on.
\<close>

definition corsOnly :: "HandlerFunc \<Rightarrow> Request \<Rightarrow> outcome" where
  "corsOnly h req = (case h of CorsNew cfg \<Rightarrow> applyCors cfg req | _ \<Rightarrow> Next)"

text \<open>
  The paths registered on the group \<open>route\<close> and on its child \<open>authorized\<close>, in the order
  of their registration.
\<close>

definition group_paths :: "string list" where
  "group_paths =
     [''/healthcheck'', ''/docs'', ''/stats'', ''/get/:namespace/*key'',
      ''/hit/:namespace/*key'', ''/stream/:namespace/*key'', ''/create/:namespace/*key'',
      ''/create/:namespace/*key'', ''/create/'', ''/create/'', ''/info/:namespace/*key'',
      ''/delete/:namespace/*key'', ''/set/:namespace/*key'', ''/reset/:namespace/*key'',
      ''/update/:namespace/*key'']"


section \<open>Shutdown in \<open>main\<close>\<close>

text \<open>
  The part of \<open>main\<close> from \<open>signal.Notify(quit, syscall.SIGINT, syscall.SIGTERM)\<close> on, as
  the sequence of its effects. \<open>main\<close> blocks on \<open>quit\<close>, to which only the signals named
  in \<open>signal.Notify\<close> are relayed; the signal read from the channel and the result of
  \<open>srv.Shutdown\<close> (its error, if any) come from outside. \<open>log.Fatal\<close> ends the process, so
  nothing follows it; on the way out of \<open>main\<close> the deferred \<open>cancel\<close> and \<open>stop\<close> run, last
  deferred first. The signals are the three that the comments of \<open>main\<close> name.
\<close>

datatype Signal = SIGINT | SIGTERM | SIGKILL

definition notified :: "Signal list" where
  "notified = [SIGINT, SIGTERM]"

datatype event =
    ReceiveQuit Signal
  | CloseServerClose
  | ContextWithTimeout Duration
  | ServerShutdown Duration
  | LogFatal string
  | AwaitContextDone
  | LogPrintln string
  | CancelContext
  | StopNotifyContext

definition main_shutdown :: "Signal \<Rightarrow> string option \<Rightarrow> event list" where
  "main_shutdown sig err =
     (let timeout = 5 * Second in
      [ReceiveQuit sig, CloseServerClose, ContextWithTimeout timeout, ServerShutdown timeout]
      @ (case err of
           Some e \<Rightarrow> [LogFatal (''Server Shutdown:'' @ e)]
         | None \<Rightarrow>
             [AwaitContextDone, LogPrintln ''timeout of 5 seconds.'',
              LogPrintln ''Server exiting'', CancelContext, StopNotifyContext]))"

text \<open>
  What \<open>main\<close> does on a signal while it waits on \<open>quit\<close>. A signal that is not relayed
  to the channel leaves \<open>main\<close> in its wait: \<open>main\<close> itself does nothing on it.
\<close>

definition main_on_signal :: "Signal \<Rightarrow> string option \<Rightarrow> event list" where
  "main_on_signal sig err = (if sig \<in> set notified then main_shutdown sig err else [])"

section \<open>The key validator\<close>

text \<open>
  Modelled from the spec: the Key Validator (\<open>validate\<close>), whose code is not among the
  source files; only the two bounds \<open>MinLength\<close> and \<open>MaxLength\<close> are. After the spec it
  trims surrounding whitespace and lower-cases, fails with \<open>TooShort\<close> or \<open>TooLong\<close> when
  the normalized length is outside \<open>[MinLength, MaxLength]\<close>, and fails with
  \<open>InvalidCharacter\<close> on a character outside the allow-list. The spec names the
  allow-list by example only, so it is the parameter \<open>allowed\<close>.
\<close>

datatype ValidationError = TooShort | TooLong | InvalidCharacter

definition isSpace :: "char \<Rightarrow> bool" where
  "isSpace c = (c \<in> set [CHR '' '', CHR 0x09, CHR 0x0A, CHR 0x0B, CHR 0x0C, CHR 0x0D])"

definition trim :: "string \<Rightarrow> string" where
  "trim s = rev (dropWhile isSpace (rev (dropWhile isSpace s)))"

definition normalize :: "string \<Rightarrow> string" where
  "normalize s = ToLower (trim s)"

definition validate_identifier :: "(char \<Rightarrow> bool) \<Rightarrow> string \<Rightarrow> ValidationError + string" where
  "validate_identifier allowed s =
     (let n = normalize s in
      if length n < MinLength then Inl TooShort
      else if MaxLength < length n then Inl TooLong
      else if \<not> list_all allowed n then Inl InvalidCharacter
      else Inr n)"

definition validate :: "(char \<Rightarrow> bool) \<Rightarrow> string \<Rightarrow> string \<Rightarrow> ValidationError + string \<times> string" where
  "validate allowed namespace key =
     (case validate_identifier allowed namespace of
        Inl e \<Rightarrow> Inl e
      | Inr n \<Rightarrow>
          (case validate_identifier allowed key of
             Inl e \<Rightarrow> Inl e
           | Inr k \<Rightarrow> Inr (n, k)))"

section \<open>The counter store\<close>

text \<open>
  Modelled from the spec: the Counter Store operation \<open>hit\<close> (the view \<open>HitView\<close> is
  registered by \<open>CreateRouter\<close>, its code is not among the source files). After the spec,
  \<open>hit(delta)\<close> atomically adds \<open>delta\<close> to the current value, and on a key that does not
  exist atomically creates it with the value \<open>delta\<close> and the default TTL; it returns the
  new value. The value is the spec's signed integer. \<open>get\<close> returns the value or
  \<open>NotFound\<close>.
\<close>

record Counter =
  cvalue :: int
  cttl :: Duration

type_synonym counter_key = "string \<times> string"

type_synonym store = "counter_key \<rightharpoonup> Counter"

datatype StoreError = NotFound

definition hit :: "counter_key \<Rightarrow> int \<Rightarrow> store \<Rightarrow> store \<times> int" where
  "hit k delta s =
     (case s k of
        None \<Rightarrow> (s(k \<mapsto> \<lparr>cvalue = delta, cttl = BaseTTLPeriod\<rparr>), delta)
      | Some c \<Rightarrow> (s(k \<mapsto> c\<lparr>cvalue := cvalue c + delta\<rparr>), cvalue c + delta))"

definition get :: "counter_key \<Rightarrow> store \<Rightarrow> StoreError + int" where
  "get k s = (case s k of None \<Rightarrow> Inl NotFound | Some c \<Rightarrow> Inr (cvalue c))"

text \<open>
  Modelled from the spec: concurrent callers of \<open>hit\<close> on one key. Each call is one
  atomic step on the store, so an execution is an order in which the pending calls take
  their step. The schedule names, step by step, the position among the calls still
  pending of the one that goes next; a schedule that names no pending call is not an
  execution (\<open>None\<close>).
\<close>

fun run_hits :: "counter_key \<Rightarrow> nat list \<Rightarrow> store \<Rightarrow> int list \<Rightarrow> (store \<times> int list) option" where
  "run_hits k [] s pending = Some (s, pending)"
| "run_hits k (i # schedule) s pending =
     (if i < length pending
      then run_hits k schedule (fst (hit k (pending ! i) s)) (take i pending @ drop (Suc i) pending)
      else None)"

text \<open>The value held under a key, 0 when the key is absent.\<close>

definition stored :: "counter_key \<Rightarrow> store \<Rightarrow> int" where
  "stored k s = (case s k of None \<Rightarrow> 0 | Some c \<Rightarrow> cvalue c)"

section \<open>The default expiry\<close>

lemmas duration_defs =
  Nanosecond_def Microsecond_def Millisecond_def Second_def Minute_def Hour_def

text \<open>
  Claim C1. The default counter expiry \<open>BaseTTLPeriod\<close> is meant to be ten years, that is
  \<open>10 * 365 * 24\<close> hours, as the comment beside the constant says. The constant is
  \<open>3650\<close> hours (a little over 152 days): the factor of 24 hours per day is missing, and
  the value is a twenty-fourth of ten years. It fits an \<open>int64\<close>, so no overflow is
  involved.
\<close>

theorem BaseTTLPeriod_is_3650_hours:
  "BaseTTLPeriod = 3650 * Hour
   \<and> BaseTTLPeriod = 13140000000000000
   \<and> BaseTTLPeriod < 2 ^ 63
   \<and> 10 * 365 * 24 * Hour = 24 * BaseTTLPeriod
   \<and> BaseTTLPeriod \<noteq> 10 * 365 * 24 * Hour"
  by (simp add: BaseTTLPeriod_def duration_defs)

section \<open>The database slots of the two clients\<close>


lemma ToLower_TRUE: "ToLower ''TRUE'' = ''true''"
  by code_simp

lemma ToLower_Nil: "ToLower [] = []"
  by (simp add: ToLower_def)


lemma Atoi_decimal_no_syntax_error: "decimal_integer s \<Longrightarrow> snd (Atoi s) \<noteq> Some ErrSyntax"
  by (simp add: Atoi_def Let_def decimal_integer_def)



text \<open>
  Claim C2, as amended. Outside TESTING mode, \<open>init\<close> succeeds and gives the rate
  limiter's client the database slot \<open>DbNum + 1\<close> and the counter client the slot
  \<open>DbNum\<close>; the two slots differ (also when the addition wraps around).
\<close>

theorem init_production_slots_differ:
  assumes "ToLower (Getenv env ''TESTING'') \<noteq> ''true''"
  shows "\<exists>g' c r. init env mr name g = Inr g'
      \<and> Client g' = Some c \<and> RateLimitClient g' = Some r
      \<and> DB c = DbNum g' \<and> DB r = DbNum g' + 1 \<and> DB r \<noteq> DB c"
  using assms by (simp add: init_def Let_def NewClient_def)

text \<open>The theorem at an environment that sets \<open>REDIS_DB\<close> to 3 and leaves TESTING unset.\<close>

theorem init_production_slots_differ_witness:
  "ToLower (Getenv [''REDIS_DB'' \<mapsto> ''3''] ''TESTING'') \<noteq> ''true''
   \<and> (\<exists>g' c r. init [''REDIS_DB'' \<mapsto> ''3''] (Inl ''unused'') ''shard'' initial_globals = Inr g'
        \<and> Client g' = Some c \<and> RateLimitClient g' = Some r
        \<and> DB c = DbNum g' \<and> DB r = DbNum g' + 1 \<and> DB r \<noteq> DB c)"
  using init_production_slots_differ
    [of "[''REDIS_DB'' \<mapsto> ''3'']" "Inl ''unused''" "''shard''" initial_globals]
  by (simp add: Getenv_def ToLower_Nil)

text \<open>
  Claim C2 as stated fails in TESTING mode: \<open>setupMockRedis\<close> creates both clients with
  the address of miniredis only, so both have the database slot 0, whatever \<open>REDIS_DB\<close>
  says.
\<close>

theorem testing_mode_same_slot:
  "init [''TESTING'' \<mapsto> ''TRUE'', ''REDIS_DB'' \<mapsto> ''5''] (Inr ''127.0.0.1:41217'') ''shard''
        initial_globals
     = Inr \<lparr>Client =
              Some \<lparr>Addr = ''127.0.0.1:41217'', Username = [], Password = [], DB = 0\<rparr>,
            RateLimitClient =
              Some \<lparr>Addr = ''127.0.0.1:41217'', Username = [], Password = [], DB = 0\<rparr>,
            DbNum = 0, Shard = [], ginMode = None,
            logged = [''Using miniredis for testing'']\<rparr>"
  by (simp add: init_def Getenv_def ToLower_TRUE setupMockRedis_def NewClient_def
      initial_globals_def)

section \<open>\<open>REDIS_DB\<close> unset or not a number\<close>




text \<open>
  A text of digits that an \<open>int\<close> cannot hold is a decimal integer, so the amended claim
  does not speak of it. There \<open>Atoi\<close> returns the largest \<open>int\<close> beside its range
  error, \<open>DbNum\<close> takes that value, and \<open>DbNum + 1\<close> wraps around to the least \<open>int\<close>.
\<close>

lemma Atoi_out_of_range:
  "Atoi ''9223372036854775808'' = (9223372036854775807, Some ErrRange)"
  by code_simp

lemma init_REDIS_DB_out_of_range:
  "init [''REDIS_DB'' \<mapsto> ''9223372036854775808''] mr name initial_globals
     = Inr \<lparr>Client =
              Some \<lparr>Addr = '':'', Username = [], Password = [], DB = 9223372036854775807\<rparr>,
            RateLimitClient =
              Some \<lparr>Addr = '':'', Username = [], Password = [], DB = 9223372036854775808\<rparr>,
            DbNum = 9223372036854775807, Shard = name, ginMode = Some ReleaseMode,
            logged = [''Listening to redis on: :'']\<rparr>"
  by (simp add: init_def Getenv_def ToLower_Nil Atoi_out_of_range NewClient_def
      initial_globals_def Let_def)

section \<open>The shape of the router\<close>

lemmas gin_defs =
  New_def Default_def engine_Use_def group_Use_def NoRoute_def Group_def handle_def
  GET_def POST_def HEAD_def StaticFile_def

lemma Handlers_engine_middleware:
  "Handlers (root (engine_middleware env)) =
     [Logger, Recovery, CorsNew corsConfig, Recovery]
     @ (if Getenv env ''API_ANALYTICS_ENABLED'' = ''true''
        then [Analytics (Getenv env ''API_ANALYTICS_KEY'')] else [])"
  by (simp add: engine_middleware_def gin_defs Let_def)

lemma Handlers_route_group:
  "Handlers (route_group env g) =
     Handlers (root (engine_middleware env)) @ [Stats]
     @ (if Getenv env ''RATE_LIMIT_ENABLED'' = ''true''
        then [RateLimit (RateLimitClient g)] else [])"
  by (simp add: route_group_def gin_defs Let_def)

lemma Handlers_authorized_group:
  "Handlers (authorized_group env g) = Handlers (route_group env g) @ [Auth (Client g)]"
  by (simp add: authorized_group_def gin_defs)

lemma trees_engine_middleware: "trees (engine_middleware env) = []"
  by (simp add: engine_middleware_def gin_defs Let_def)

text \<open>The routes of the router, in the order of their registration.\<close>

lemma trees_CreateRouter:
  "trees (CreateRouter env g) =
     (let E = Handlers (root (engine_middleware env));
          R = Handlers (route_group env g);
          A = Handlers (authorized_group env g) in
      [\<lparr>Method = ''GET'', Path = ''/favicon.svg'',
        Chain = E @ [StaticFileFunc ''./assets/favicon.svg'']\<rparr>,
       \<lparr>Method = ''HEAD'', Path = ''/favicon.svg'',
        Chain = E @ [StaticFileFunc ''./assets/favicon.svg'']\<rparr>,
       \<lparr>Method = ''GET'', Path = ''/favicon.ico'',
        Chain = E @ [StaticFileFunc ''./assets/favicon.ico'']\<rparr>,
       \<lparr>Method = ''HEAD'', Path = ''/favicon.ico'',
        Chain = E @ [StaticFileFunc ''./assets/favicon.ico'']\<rparr>,
       \<lparr>Method = ''GET'', Path = ''/healthcheck'', Chain = R @ [HealthcheckFunc]\<rparr>,
       \<lparr>Method = ''GET'', Path = ''/docs'', Chain = R @ [DocsFunc]\<rparr>,
       \<lparr>Method = ''GET'', Path = ''/stats'', Chain = R @ [StatsView]\<rparr>,
       \<lparr>Method = ''GET'', Path = ''/get/:namespace/*key'', Chain = R @ [GetView]\<rparr>,
       \<lparr>Method = ''GET'', Path = ''/hit/:namespace/*key'', Chain = R @ [HitView]\<rparr>,
       \<lparr>Method = ''GET'', Path = ''/stream/:namespace/*key'',
        Chain = R @ [SSEMiddleware, StreamValueView]\<rparr>,
       \<lparr>Method = ''POST'', Path = ''/create/:namespace/*key'', Chain = R @ [CreateView]\<rparr>,
       \<lparr>Method = ''GET'', Path = ''/create/:namespace/*key'', Chain = R @ [CreateView]\<rparr>,
       \<lparr>Method = ''GET'', Path = ''/create/'', Chain = R @ [CreateRandomView]\<rparr>,
       \<lparr>Method = ''POST'', Path = ''/create/'', Chain = R @ [CreateRandomView]\<rparr>,
       \<lparr>Method = ''GET'', Path = ''/info/:namespace/*key'', Chain = R @ [InfoView]\<rparr>,
       \<lparr>Method = ''POST'', Path = ''/delete/:namespace/*key'', Chain = A @ [DeleteView]\<rparr>,
       \<lparr>Method = ''POST'', Path = ''/set/:namespace/*key'', Chain = A @ [SetView]\<rparr>,
       \<lparr>Method = ''POST'', Path = ''/reset/:namespace/*key'', Chain = A @ [ResetView]\<rparr>,
       \<lparr>Method = ''POST'', Path = ''/update/:namespace/*key'', Chain = A @ [UpdateByView]\<rparr>])"
  by (simp add: CreateRouter_def Let_def NoRoute_def handle_def GET_def POST_def HEAD_def
      StaticFile_def trees_engine_middleware)

lemma allNoRoute_CreateRouter:
  "allNoRoute (CreateRouter env g) = Handlers (root (engine_middleware env)) @ [NoRouteFunc]"
  by (simp add: CreateRouter_def Let_def NoRoute_def handle_def GET_def POST_def HEAD_def
      StaticFile_def)

lemma root_CreateRouter: "root (CreateRouter env g) = root (engine_middleware env)"
  by (simp add: CreateRouter_def Let_def NoRoute_def handle_def GET_def POST_def HEAD_def
      StaticFile_def)


lemma splitPath_paths:
  "splitPath [] ''/get/:namespace/*key'' = [[], ''get'', '':namespace'', ''*key'']"
  "splitPath [] ''/hit/:namespace/*key'' = [[], ''hit'', '':namespace'', ''*key'']"
  "splitPath [] ''/stream/:namespace/*key'' = [[], ''stream'', '':namespace'', ''*key'']"
  "splitPath [] ''/create/:namespace/*key'' = [[], ''create'', '':namespace'', ''*key'']"
  "splitPath [] ''/info/:namespace/*key'' = [[], ''info'', '':namespace'', ''*key'']"
  "splitPath [] ''/delete/:namespace/*key'' = [[], ''delete'', '':namespace'', ''*key'']"
  "splitPath [] ''/set/:namespace/*key'' = [[], ''set'', '':namespace'', ''*key'']"
  "splitPath [] ''/reset/:namespace/*key'' = [[], ''reset'', '':namespace'', ''*key'']"
  by simp_all

section \<open>Running a chain\<close>


text \<open>Handlers that hand the request on leave the response to the rest of the chain.\<close>

lemma written_skips_Next:
  "\<forall>h\<in>set pre. behaviour ext h req = Next
   \<Longrightarrow> written ext (pre @ hs) req = written ext hs req"
  by (induction pre) auto


text \<open>Only handlers of the chain run, and all of them when none aborts.\<close>

lemma invoked_subset: "set (invoked ext hs req) \<subseteq> set hs"
  by (induction hs) (auto split: outcome.splits)

lemma invoked_all:
  "\<forall>h\<in>set hs. \<forall>r. behaviour ext h req \<noteq> AbortWith r \<Longrightarrow> invoked ext hs req = hs"
  by (induction hs) (auto split: outcome.splits)

text \<open>A chain that ends in the handler for no route always writes a response.\<close>

lemma written_ends_in_NoRouteFunc: "written ext (pre @ [NoRouteFunc]) req \<noteq> None"
  by (induction pre) (auto split: outcome.splits)

text \<open>The route that the lookup finds is a registered one.\<close>

lemma found_in_trees: "found (getValue matches e req) = Some rt \<Longrightarrow> rt \<in> set (trees e)"
  by (auto simp: getValue_def Let_def find_Some_iff dest: nth_mem)

section \<open>Authentication on the mutation routes\<close>



section \<open>The eight operations\<close>

text \<open>
  Claim C5. \<open>CreateRouter\<close> registers a route for each of the eight operations create,
  hit, get, set, reset, delete, info and stream: a route under the method of the
  operation (create under POST and under GET) whose path is the operation followed by a
  namespace segment and a key segment, and whose chain ends in the view of the operation.
\<close>

theorem eight_operations_registered:
  "\<forall>(op, m, view) \<in> set [(''create'', ''POST'', CreateView), (''create'', ''GET'', CreateView),
        (''hit'', ''GET'', HitView), (''get'', ''GET'', GetView), (''set'', ''POST'', SetView),
        (''reset'', ''POST'', ResetView), (''delete'', ''POST'', DeleteView),
        (''info'', ''GET'', InfoView), (''stream'', ''GET'', StreamValueView)].
     \<exists>rt \<in> set (trees (CreateRouter env g)).
       Method rt = m
       \<and> Path rt = ''/'' @ op @ ''/:namespace/*key''
       \<and> splitPath [] (Path rt) = [[], op, '':namespace'', ''*key'']
       \<and> Chain rt \<noteq> [] \<and> last (Chain rt) = view"
  by (simp add: trees_CreateRouter Let_def splitPath_paths)

text \<open>The theorem at the operation hit, in the router of an empty environment.\<close>

theorem eight_operations_registered_witness:
  "\<exists>rt \<in> set (trees (CreateRouter Map.empty initial_globals)).
       Method rt = ''GET''
       \<and> Path rt = ''/hit/:namespace/*key''
       \<and> splitPath [] (Path rt) = [[], ''hit'', '':namespace'', ''*key'']
       \<and> Chain rt \<noteq> [] \<and> last (Chain rt) = HitView"
  using eight_operations_registered [of Map.empty initial_globals] by simp

section \<open>The two toggles\<close>

lemma rate_limited_paths:
  "map Path (filter (\<lambda>rt. RateLimit (RateLimitClient g) \<in> set (Chain rt))
                    (trees (CreateRouter env g)))
     = (if Getenv env ''RATE_LIMIT_ENABLED'' = ''true'' then group_paths else [])"
  by (simp add: trees_CreateRouter Let_def Handlers_authorized_group Handlers_route_group
      Handlers_engine_middleware group_paths_def)

lemma group_route_chain:
  "rt \<in> set (trees (CreateRouter env g)) \<Longrightarrow> Path rt \<in> set group_paths
   \<Longrightarrow> \<exists>rest. Chain rt = Handlers (route_group env g) @ rest"
  by (auto simp: trees_CreateRouter Let_def Handlers_authorized_group group_paths_def)

lemma RateLimit_only_if_enabled:
  "rt \<in> set (trees (CreateRouter env g)) \<Longrightarrow> RateLimit c \<in> set (Chain rt)
   \<Longrightarrow> Getenv env ''RATE_LIMIT_ENABLED'' = ''true''"
  by (auto simp: trees_CreateRouter Let_def Handlers_authorized_group Handlers_route_group
      Handlers_engine_middleware split: if_splits)

lemma Analytics_only_if_enabled:
  "rt \<in> set (trees (CreateRouter env g)) \<Longrightarrow> Analytics k \<in> set (Chain rt)
   \<Longrightarrow> Getenv env ''API_ANALYTICS_ENABLED'' = ''true''"
  by (auto simp: trees_CreateRouter Let_def Handlers_authorized_group Handlers_route_group
      Handlers_engine_middleware split: if_splits)

lemma Analytics_on_every_route:
  "list_all (\<lambda>rt. Analytics (Getenv env ''API_ANALYTICS_KEY'') \<in> set (Chain rt)
                   \<longleftrightarrow> Getenv env ''API_ANALYTICS_ENABLED'' = ''true'')
            (trees (CreateRouter env g))"
  by (simp add: trees_CreateRouter Let_def Handlers_authorized_group Handlers_route_group
      Handlers_engine_middleware)

lemma allNoRoute_no_RateLimit: "RateLimit c \<notin> set (allNoRoute (CreateRouter env g))"
  by (simp add: allNoRoute_CreateRouter Handlers_engine_middleware)

lemma allNoRoute_Analytics:
  "Analytics k \<in> set (allNoRoute (CreateRouter env g))
   \<Longrightarrow> Getenv env ''API_ANALYTICS_ENABLED'' = ''true''"
  by (simp add: allNoRoute_CreateRouter Handlers_engine_middleware split: if_splits)

lemma handlersInvoked_cases:
  "h \<in> set (handlersInvoked matches ext e req)
   \<Longrightarrow> (\<exists>rt\<in>set (trees e). h \<in> set (Chain rt)) \<or> h \<in> set (allNoRoute e)"
  using invoked_subset
  by (fastforce simp: handlersInvoked_def split: option.splits if_splits dest: found_in_trees)

lemma RateLimit_in_route_group:
  "Getenv env ''RATE_LIMIT_ENABLED'' = ''true''
   \<Longrightarrow> RateLimit (RateLimitClient g) \<in> set (Handlers (route_group env g))"
  by (simp add: Handlers_route_group)

text \<open>
  Claim C6. \<open>CreateRouter\<close> installs the rate limiter on the group \<open>route\<close> if and only if
  \<open>RATE_LIMIT_ENABLED\<close> is \<open>true\<close>: the routes of the router that carry it are all the
  routes of the group when the variable is \<open>true\<close>, and none otherwise. It installs the
  analytics middleware if and only if \<open>API_ANALYTICS_ENABLED\<close> is \<open>true\<close>, and then on
  every route. Both variables are read when the router is built and not per request:
  whatever the environment \<open>env'\<close> is when a request is served, and whatever the outside
  handlers make of it, the rate limiter or analytics runs only if its variable was
  \<open>true\<close> in the environment given to \<open>CreateRouter\<close>, and the rate limiter does run on a
  request to a route of the group that no handler aborts if the variable was \<open>true\<close>
  then.
\<close>

theorem toggles_read_at_construction:
  fixes ext :: "environ \<Rightarrow> HandlerFunc \<Rightarrow> Request \<Rightarrow> outcome"
  shows
  "map Path (filter (\<lambda>rt. RateLimit (RateLimitClient g) \<in> set (Chain rt))
                    (trees (CreateRouter env g)))
     = (if Getenv env ''RATE_LIMIT_ENABLED'' = ''true'' then group_paths else [])
   \<and> ((\<exists>c. RateLimit c \<in> set (Handlers (route_group env g)))
        \<longleftrightarrow> Getenv env ''RATE_LIMIT_ENABLED'' = ''true'')
   \<and> ((\<exists>k. Analytics k \<in> set (Handlers (root (CreateRouter env g))))
        \<longleftrightarrow> Getenv env ''API_ANALYTICS_ENABLED'' = ''true'')
   \<and> trees (CreateRouter env g) \<noteq> []
   \<and> list_all (\<lambda>rt. Analytics (Getenv env ''API_ANALYTICS_KEY'') \<in> set (Chain rt)
                     \<longleftrightarrow> Getenv env ''API_ANALYTICS_ENABLED'' = ''true'')
               (trees (CreateRouter env g))
   \<and> ((\<exists>c. RateLimit c \<in> set (handlersInvoked matches (ext env') (CreateRouter env g) req))
        \<longrightarrow> Getenv env ''RATE_LIMIT_ENABLED'' = ''true'')
   \<and> ((\<exists>k. Analytics k \<in> set (handlersInvoked matches (ext env') (CreateRouter env g) req))
        \<longrightarrow> Getenv env ''API_ANALYTICS_ENABLED'' = ''true'')
   \<and> (Getenv env ''RATE_LIMIT_ENABLED'' = ''true''
        \<and> found (getValue matches (CreateRouter env g) req) = Some rt
        \<and> Path rt \<in> set group_paths
        \<and> (\<forall>h\<in>set (Chain rt). \<forall>r. behaviour (ext env') h req \<noteq> AbortWith r)
        \<longrightarrow> RateLimit (RateLimitClient g)
             \<in> set (handlersInvoked matches (ext env') (CreateRouter env g) req))"
proof (intro conjI impI)
  show "map Path (filter (\<lambda>rt. RateLimit (RateLimitClient g) \<in> set (Chain rt))
                    (trees (CreateRouter env g)))
     = (if Getenv env ''RATE_LIMIT_ENABLED'' = ''true'' then group_paths else [])"
    by (rule rate_limited_paths)
next
  show "(\<exists>c. RateLimit c \<in> set (Handlers (route_group env g)))
        \<longleftrightarrow> Getenv env ''RATE_LIMIT_ENABLED'' = ''true''"
    by (simp add: Handlers_route_group Handlers_engine_middleware)
next
  show "(\<exists>k. Analytics k \<in> set (Handlers (root (CreateRouter env g))))
        \<longleftrightarrow> Getenv env ''API_ANALYTICS_ENABLED'' = ''true''"
    by (simp add: root_CreateRouter Handlers_engine_middleware)
next
  show "trees (CreateRouter env g) \<noteq> []"
    by (simp add: trees_CreateRouter Let_def)
next
  show "list_all (\<lambda>rt. Analytics (Getenv env ''API_ANALYTICS_KEY'') \<in> set (Chain rt)
                     \<longleftrightarrow> Getenv env ''API_ANALYTICS_ENABLED'' = ''true'')
               (trees (CreateRouter env g))"
    by (rule Analytics_on_every_route)
next
  assume "\<exists>c. RateLimit c \<in> set (handlersInvoked matches (ext env') (CreateRouter env g) req)"
  then obtain c
    where "RateLimit c \<in> set (handlersInvoked matches (ext env') (CreateRouter env g) req)"
    by blast
  from handlersInvoked_cases [OF this]
  show "Getenv env ''RATE_LIMIT_ENABLED'' = ''true''"
    using RateLimit_only_if_enabled allNoRoute_no_RateLimit by blast
next
  assume "\<exists>k. Analytics k \<in> set (handlersInvoked matches (ext env') (CreateRouter env g) req)"
  then obtain k
    where "Analytics k \<in> set (handlersInvoked matches (ext env') (CreateRouter env g) req)"
    by blast
  from handlersInvoked_cases [OF this]
  show "Getenv env ''API_ANALYTICS_ENABLED'' = ''true''"
    using Analytics_only_if_enabled allNoRoute_Analytics by blast
next
  assume a: "Getenv env ''RATE_LIMIT_ENABLED'' = ''true''
        \<and> found (getValue matches (CreateRouter env g) req) = Some rt
        \<and> Path rt \<in> set group_paths
        \<and> (\<forall>h\<in>set (Chain rt). \<forall>r. behaviour (ext env') h req \<noteq> AbortWith r)"
  then have rt: "rt \<in> set (trees (CreateRouter env g))"
    by (blast dest: found_in_trees)
  from a have "invoked (ext env') (Chain rt) req = Chain rt"
    by (simp add: invoked_all)
  moreover from group_route_chain [OF rt] a RateLimit_in_route_group [of env g]
  have "RateLimit (RateLimitClient g) \<in> set (Chain rt)"
    by auto
  ultimately show "RateLimit (RateLimitClient g)
             \<in> set (handlersInvoked matches (ext env') (CreateRouter env g) req)"
    using a by (simp add: handlersInvoked_def)
qed

text \<open>
  The theorem at a router built with the rate limiter on, serving \<open>GET /hit/ns/counter1\<close>
  under an environment that has since turned it off.
\<close>

lemma find_filter_hit:
  "found (getValue matchPath (CreateRouter [''RATE_LIMIT_ENABLED'' \<mapsto> ''true''] initial_globals)
      \<lparr>reqMethod = ''GET'', reqHost = ''localhost:8080'', reqPath = ''/hit/ns/counter1'',
       reqHeader = []\<rparr>)
   = Some \<lparr>Method = ''GET'', Path = ''/hit/:namespace/*key'',
           Chain = Handlers (route_group [''RATE_LIMIT_ENABLED'' \<mapsto> ''true''] initial_globals)
                   @ [HitView]\<rparr>"
  by (simp add: getValue_def trees_CreateRouter Let_def matchPath_def)

theorem toggles_read_at_construction_witness:
  "Getenv [''RATE_LIMIT_ENABLED'' \<mapsto> ''true''] ''RATE_LIMIT_ENABLED'' = ''true''
   \<and> Getenv [''RATE_LIMIT_ENABLED'' \<mapsto> ''false''] ''RATE_LIMIT_ENABLED'' \<noteq> ''true''
   \<and> ''/hit/:namespace/*key'' \<in> set group_paths
   \<and> RateLimit (RateLimitClient initial_globals)
       \<in> set (handlersInvoked matchPath ((\<lambda>env' h req. Next) [''RATE_LIMIT_ENABLED'' \<mapsto> ''false''])
                (CreateRouter [''RATE_LIMIT_ENABLED'' \<mapsto> ''true''] initial_globals)
                \<lparr>reqMethod = ''GET'', reqHost = ''localhost:8080'',
                 reqPath = ''/hit/ns/counter1'', reqHeader = []\<rparr>)"
proof -
  let ?env = "[''RATE_LIMIT_ENABLED'' \<mapsto> ''true'']"
  let ?env' = "[''RATE_LIMIT_ENABLED'' \<mapsto> ''false'']"
  let ?req = "\<lparr>reqMethod = ''GET'', reqHost = ''localhost:8080'',
                 reqPath = ''/hit/ns/counter1'', reqHeader = []\<rparr>"
  let ?rt = "\<lparr>Method = ''GET'', Path = ''/hit/:namespace/*key'',
           Chain = Handlers (route_group ?env initial_globals) @ [HitView]\<rparr>"
  have on: "Getenv ?env ''RATE_LIMIT_ENABLED'' = ''true''"
    by (simp add: Getenv_def)
  have off: "Getenv ?env' ''RATE_LIMIT_ENABLED'' \<noteq> ''true''"
    by (simp add: Getenv_def)
  have path: "Path ?rt \<in> set group_paths"
    by (simp add: group_paths_def)
  have pass: "\<forall>h\<in>set (Chain ?rt). \<forall>r. behaviour ((\<lambda>env' h req. Next) ?env') h ?req \<noteq> AbortWith r"
    by (simp add: Handlers_route_group Handlers_engine_middleware Getenv_def)
  from toggles_read_at_construction
    [where g = initial_globals and env = ?env and matches = matchPath
       and ext = "\<lambda>env' h req. Next" and env' = ?env' and req = ?req and rt = ?rt]
    on off path pass find_filter_hit
  show ?thesis by simp
qed

section \<open>Requests that find no route\<close>

text \<open>
  Claim C9, as amended. A request that finds no route, that gin does not redirect for
  its trailing slash, and that the middleware of the engine hands on, is answered by the
  handler given to \<open>r.NoRoute\<close> with the permanent redirect 308 to \<open>DocsUrl\<close>, which is
  \<open>http://localhost:8080/abacus/\<close>. And no request without a route gets gin's plain 404:
  the chain for no route always writes a response, so the answer is either the redirect
  for the trailing slash or what that chain wrote.
\<close>

theorem no_route_redirects_to_docs:
  "(found (getValue matches (CreateRouter env g) req) = None
      \<and> \<not> redirectsTrailingSlash matches (CreateRouter env g) req
      \<and> (\<forall>h \<in> set (Handlers (root (CreateRouter env g))). behaviour ext h req = Next)
    \<longrightarrow> handleHTTPRequest matches ext (CreateRouter env g) req
           = \<lparr>status = 308, location = Some ''http://localhost:8080/abacus/''\<rparr>
       \<and> handleHTTPRequest matches ext (CreateRouter env g) req
           = Redirect StatusPermanentRedirect DocsUrl)
   \<and> (found (getValue matches (CreateRouter env g) req) = None
    \<longrightarrow> written ext (allNoRoute (CreateRouter env g)) req \<noteq> None
       \<and> (handleHTTPRequest matches ext (CreateRouter env g) req = redirectTrailingSlash req
          \<or> written ext (allNoRoute (CreateRouter env g)) req
              = Some (handleHTTPRequest matches ext (CreateRouter env g) req)))"
proof (intro conjI impI)
  assume a: "found (getValue matches (CreateRouter env g) req) = None
      \<and> \<not> redirectsTrailingSlash matches (CreateRouter env g) req
      \<and> (\<forall>h \<in> set (Handlers (root (CreateRouter env g))). behaviour ext h req = Next)"
  then have "\<forall>h \<in> set (Handlers (root (engine_middleware env))). behaviour ext h req = Next"
    by (simp add: root_CreateRouter)
  then have "written ext (allNoRoute (CreateRouter env g)) req = written ext [NoRouteFunc] req"
    unfolding allNoRoute_CreateRouter by (rule written_skips_Next)
  with a show "handleHTTPRequest matches ext (CreateRouter env g) req
           = \<lparr>status = 308, location = Some ''http://localhost:8080/abacus/''\<rparr>"
    and "handleHTTPRequest matches ext (CreateRouter env g) req
           = Redirect StatusPermanentRedirect DocsUrl"
    by (simp_all add: handleHTTPRequest_def Redirect_def StatusPermanentRedirect_def DocsUrl_def)
next
  show "written ext (allNoRoute (CreateRouter env g)) req \<noteq> None"
    unfolding allNoRoute_CreateRouter by (rule written_ends_in_NoRouteFunc)
next
  assume "found (getValue matches (CreateRouter env g) req) = None"
  moreover have "written ext (allNoRoute (CreateRouter env g)) req \<noteq> None"
    unfolding allNoRoute_CreateRouter by (rule written_ends_in_NoRouteFunc)
  ultimately show "handleHTTPRequest matches ext (CreateRouter env g) req = redirectTrailingSlash req
          \<or> written ext (allNoRoute (CreateRouter env g)) req
              = Some (handleHTTPRequest matches ext (CreateRouter env g) req)"
    by (auto simp: handleHTTPRequest_def)
qed

lemma lookup_nope:
  "getValue matchPath (CreateRouter Map.empty initial_globals)
      \<lparr>reqMethod = ''GET'', reqHost = ''localhost:8080'', reqPath = ''/nope'', reqHeader = []\<rparr>
     = \<lparr>found = None, tsr = False\<rparr>"
  by (simp add: getValue_def trees_CreateRouter Let_def matchPath_def toggleSlash_def)

text \<open>
  The theorem at \<open>GET /nope\<close>, with the matching of paths in the manner of gin and
  handlers that all hand the request on.
\<close>

theorem no_route_redirects_to_docs_witness:
  "found (getValue matchPath (CreateRouter Map.empty initial_globals)
      \<lparr>reqMethod = ''GET'', reqHost = ''localhost:8080'', reqPath = ''/nope'', reqHeader = []\<rparr>)
     = None
   \<and> \<not> redirectsTrailingSlash matchPath (CreateRouter Map.empty initial_globals)
      \<lparr>reqMethod = ''GET'', reqHost = ''localhost:8080'', reqPath = ''/nope'', reqHeader = []\<rparr>
   \<and> handleHTTPRequest matchPath (\<lambda>h req. Next) (CreateRouter Map.empty initial_globals)
      \<lparr>reqMethod = ''GET'', reqHost = ''localhost:8080'', reqPath = ''/nope'', reqHeader = []\<rparr>
       = \<lparr>status = 308, location = Some ''http://localhost:8080/abacus/''\<rparr>"
proof -
  let ?req = "\<lparr>reqMethod = ''GET'', reqHost = ''localhost:8080'', reqPath = ''/nope'',
               reqHeader = []\<rparr>"
  have a: "found (getValue matchPath (CreateRouter Map.empty initial_globals) ?req) = None"
    by (simp add: lookup_nope)
  have b: "\<not> redirectsTrailingSlash matchPath (CreateRouter Map.empty initial_globals) ?req"
    by (simp add: redirectsTrailingSlash_def lookup_nope)
  have c: "\<forall>h \<in> set (Handlers (root (CreateRouter Map.empty initial_globals))).
      behaviour (\<lambda>h req. Next) h ?req = Next"
    by (simp add: root_CreateRouter Handlers_engine_middleware Getenv_def)
  from no_route_redirects_to_docs
    [of matchPath Map.empty initial_globals ?req "\<lambda>h req. Next"] a b c
  show ?thesis by simp
qed

lemma lookup_create:
  "getValue matchPath (CreateRouter Map.empty initial_globals)
      \<lparr>reqMethod = ''GET'', reqHost = ''localhost:8080'', reqPath = ''/create'', reqHeader = []\<rparr>
     = \<lparr>found = None, tsr = True\<rparr>"
  by (simp add: getValue_def trees_CreateRouter Let_def matchPath_def toggleSlash_def)

lemma lookup_preflight:
  "getValue matchPath (CreateRouter Map.empty initial_globals)
      \<lparr>reqMethod = ''OPTIONS'', reqHost = ''localhost:8080'', reqPath = ''/nope'',
       reqHeader = [(''Origin'', ''http://example.com'')]\<rparr>
     = \<lparr>found = None, tsr = False\<rparr>"
  by (simp add: getValue_def trees_CreateRouter Let_def matchPath_def toggleSlash_def)

lemma RedirectTrailingSlash_CreateRouter: "RedirectTrailingSlash (CreateRouter env g)"
  by (simp add: CreateRouter_def Let_def NoRoute_def handle_def GET_def POST_def HEAD_def
      StaticFile_def engine_middleware_def engine_Use_def Default_def New_def group_Use_def)

text \<open>
  Claim C9 as stated fails at two requests that find no route. \<open>GET /create\<close> differs from
  the registered \<open>/create/\<close> by the trailing slash only, and gin answers it 301 to
  \<open>/create/\<close> before any handler runs. An OPTIONS request with the Origin header of
  another site is a preflight, which the cors middleware answers 204 and aborts before
  the handler for no route is reached.
\<close>

theorem unmatched_requests_not_308:
  "found (getValue matchPath (CreateRouter Map.empty initial_globals)
      \<lparr>reqMethod = ''GET'', reqHost = ''localhost:8080'', reqPath = ''/create'', reqHeader = []\<rparr>)
     = None
   \<and> handleHTTPRequest matchPath corsOnly (CreateRouter Map.empty initial_globals)
      \<lparr>reqMethod = ''GET'', reqHost = ''localhost:8080'', reqPath = ''/create'', reqHeader = []\<rparr>
     = \<lparr>status = 301, location = Some ''/create/''\<rparr>
   \<and> found (getValue matchPath (CreateRouter Map.empty initial_globals)
      \<lparr>reqMethod = ''OPTIONS'', reqHost = ''localhost:8080'', reqPath = ''/nope'',
       reqHeader = [(''Origin'', ''http://example.com'')]\<rparr>)
     = None
   \<and> handleHTTPRequest matchPath corsOnly (CreateRouter Map.empty initial_globals)
      \<lparr>reqMethod = ''OPTIONS'', reqHost = ''localhost:8080'', reqPath = ''/nope'',
       reqHeader = [(''Origin'', ''http://example.com'')]\<rparr>
     = \<lparr>status = 204, location = None\<rparr>"
  by (simp add: handleHTTPRequest_def redirectsTrailingSlash_def lookup_create lookup_preflight
      RedirectTrailingSlash_CreateRouter redirectTrailingSlash_def Redirect_def
      StatusMovedPermanently_def toggleSlash_def allNoRoute_CreateRouter
      Handlers_engine_middleware Getenv_def corsOnly_def applyCors_def corsConfig_def
      StatusNoContent_def)

section \<open>Shutdown\<close>

text \<open>
  Claim C8. On SIGINT or SIGTERM, \<open>main\<close> closes \<open>utils.ServerClose\<close> before it calls
  \<open>srv.Shutdown\<close>, and the context it gives to \<open>srv.Shutdown\<close> has a timeout of five
  seconds, whether the shutdown succeeds or fails.
\<close>

theorem close_before_shutdown:
  assumes "sig \<in> {SIGINT, SIGTERM}"
  shows "\<exists>before after.
           main_on_signal sig err = before @ CloseServerClose # after
         \<and> (\<forall>d. ServerShutdown d \<notin> set before)
         \<and> ServerShutdown (5 * Second) \<in> set after
         \<and> (\<forall>d. ServerShutdown d \<in> set after \<longrightarrow> d = 5000000000)"
proof -
  let ?rest = "[ContextWithTimeout (5 * Second), ServerShutdown (5 * Second)]
      @ (case err of
           Some e \<Rightarrow> [LogFatal (''Server Shutdown:'' @ e)]
         | None \<Rightarrow>
             [AwaitContextDone, LogPrintln ''timeout of 5 seconds.'',
              LogPrintln ''Server exiting'', CancelContext, StopNotifyContext])"
  have "main_on_signal sig err = [ReceiveQuit sig] @ CloseServerClose # ?rest"
    using assms by (auto simp: main_on_signal_def main_shutdown_def notified_def Let_def)
  moreover have "\<forall>d. ServerShutdown d \<notin> set [ReceiveQuit sig]"
    by simp
  moreover have "ServerShutdown (5 * Second) \<in> set ?rest"
    by simp
  moreover have "\<forall>d. ServerShutdown d \<in> set ?rest \<longrightarrow> d = 5000000000"
    by (auto simp: duration_defs split: option.splits)
  ultimately show ?thesis
    by blast
qed

text \<open>The theorem at SIGTERM, with a shutdown that succeeds.\<close>

theorem close_before_shutdown_witness:
  "SIGTERM \<in> {SIGINT, SIGTERM}
   \<and> (\<exists>before after.
           main_on_signal SIGTERM None = before @ CloseServerClose # after
         \<and> (\<forall>d. ServerShutdown d \<notin> set before)
         \<and> ServerShutdown (5 * Second) \<in> set after
         \<and> (\<forall>d. ServerShutdown d \<in> set after \<longrightarrow> d = 5000000000))"
  using close_before_shutdown [of SIGTERM None] by simp

section \<open>The bounds on identifiers\<close>

text \<open>
  Claim C7. The bounds of the key validator are \<open>MinLength = 3\<close> and \<open>MaxLength = 64\<close>,
  and a namespace or key is accepted only when its normalized length lies in \<open>[3, 64]\<close>:
  the validator accepts exactly the identifiers whose normalized form has such a length
  and allowed characters only, it answers \<open>TooShort\<close> exactly below 3 and \<open>TooLong\<close>
  exactly above 64, and it accepts a pair exactly when it accepts both parts.
\<close>

theorem identifier_length_bounds:
  "MinLength = 3 \<and> MaxLength = 64
   \<and> (validate_identifier allowed s = Inr n
        \<longleftrightarrow> n = normalize s \<and> 3 \<le> length n \<and> length n \<le> 64 \<and> list_all allowed n)
   \<and> (validate allowed namespace key = Inr (n, k)
        \<longleftrightarrow> validate_identifier allowed namespace = Inr n
          \<and> validate_identifier allowed key = Inr k)
   \<and> (validate_identifier allowed s = Inl TooShort \<longleftrightarrow> length (normalize s) < 3)
   \<and> (validate_identifier allowed s = Inl TooLong \<longleftrightarrow> 64 < length (normalize s))"
  by (auto simp: MinLength_def MaxLength_def validate_identifier_def validate_def Let_def
      split: sum.splits)

section \<open>Concurrent hits\<close>

lemma hit_stored: "stored k (fst (hit k d s)) = stored k s + d"
  by (simp add: hit_def stored_def split: option.splits)

lemma hit_present: "fst (hit k d s) k \<noteq> None"
  by (simp add: hit_def split: option.splits)

lemma sum_list_without:
  fixes ds :: "int list"
  assumes "i < length ds"
  shows "sum_list (take i ds @ drop (Suc i) ds) + ds ! i = sum_list ds"
proof -
  from assms have "ds = take i ds @ ds ! i # drop (Suc i) ds"
    by (rule id_take_nth_drop)
  then have "sum_list ds = sum_list (take i ds @ ds ! i # drop (Suc i) ds)"
    by simp
  then show ?thesis
    by simp
qed

text \<open>
  Along every execution, the value stored plus the deltas still pending is constant, and
  the key exists as soon as one call has taken its step.
\<close>

lemma run_hits_invariant:
  "run_hits k schedule s ds = Some (s', ds')
   \<Longrightarrow> stored k s' + sum_list ds' = stored k s + sum_list ds
     \<and> (s k \<noteq> None \<or> schedule \<noteq> [] \<longrightarrow> s' k \<noteq> None)"
proof (induction schedule arbitrary: s ds)
  case Nil
  then show ?case by simp
next
  case (Cons i schedule)
  from Cons.prems have i: "i < length ds"
    and run: "run_hits k schedule (fst (hit k (ds ! i) s)) (take i ds @ drop (Suc i) ds)
                = Some (s', ds')"
    by (auto split: if_splits)
  from Cons.IH [OF run] hit_present [of k "ds ! i" s] sum_list_without [OF i]
  show ?case by (simp add: hit_stored)
qed

text \<open>The calls can always all take their step, for instance in the order given.\<close>

lemma run_hits_in_order: "\<exists>s'. run_hits k (replicate (length ds) 0) s ds = Some (s', [])"
  by (induction ds arbitrary: s) auto

text \<open>
  Claim C4. On a fresh key, \<open>N\<close> concurrent calls of \<open>hit\<close> with the deltas \<open>d1..dN\<close>
  leave the sum of the deltas as the stored value, in whatever order the calls take their
  atomic step; and there is an execution in which all of them do.
\<close>

theorem concurrent_hits_sum:
  assumes "s k = None" and "ds \<noteq> []"
  shows "(\<exists>schedule s'. run_hits k schedule s ds = Some (s', []))
     \<and> (\<forall>schedule s'. run_hits k schedule s ds = Some (s', [])
          \<longrightarrow> get k s' = Inr (sum_list ds))"
proof (intro conjI allI impI)
  show "\<exists>schedule s'. run_hits k schedule s ds = Some (s', [])"
    using run_hits_in_order by blast
next
  fix schedule s'
  assume run: "run_hits k schedule s ds = Some (s', [])"
  have "schedule \<noteq> []"
    using run assms(2) by (cases schedule) auto
  with run_hits_invariant [OF run] assms(1)
  show "get k s' = Inr (sum_list ds)"
    by (auto simp: get_def stored_def split: option.splits)
qed

text \<open>
  The theorem at five calls with the deltas 1 to 5 on the fresh key \<open>ns/counter1\<close>, in the
  order fourth, first, third, fourth of the rest, and last.
\<close>

theorem concurrent_hits_sum_witness:
  "Map.empty (''ns'', ''counter1'') = (None :: Counter option)
   \<and> [1, 2, 3, 4, 5 :: int] \<noteq> []
   \<and> run_hits (''ns'', ''counter1'') [3, 0, 1, 1, 0] Map.empty [1, 2, 3, 4, 5] \<noteq> None
   \<and> snd (the (run_hits (''ns'', ''counter1'') [3, 0, 1, 1, 0] Map.empty [1, 2, 3, 4, 5])) = []
   \<and> get (''ns'', ''counter1'')
        (fst (the (run_hits (''ns'', ''counter1'') [3, 0, 1, 1, 0] Map.empty [1, 2, 3, 4, 5])))
       = Inr 15"
proof -
  obtain s' where r:
    "run_hits (''ns'', ''counter1'') [3, 0, 1, 1, 0] Map.empty [1, 2, 3, 4, 5] = Some (s', [])"
    by (simp add: hit_def)
  have "get (''ns'', ''counter1'') s' = Inr (sum_list [1, 2, 3, 4, 5])"
    using concurrent_hits_sum [of Map.empty "(''ns'', ''counter1'')" "[1, 2, 3, 4, 5]"] r
    by blast
  with r show ?thesis
    by simp
qed

end
